theory Spec2Isabelle
  imports Complex_Main
begin

section \<open>Scene objects of the rendering library\<close>

text \<open>
  The component \<open>ArScene\<close> keeps its scene objects in mutable refs and changes them from
  event listeners and from the frame callback. The objects are those of the rendering
  library: an \<open>Object3D\<close> carries a position, an orientation, a scale, a local 4x4 matrix
  and a visibility flag, each a field of its own. Numbers are JavaScript numbers; they are
  taken as reals here, none of the properties below depends on rounding.

  The library keeps \<open>rotation\<close> (Euler angles) and \<open>quaternion\<close> of an object in step: a
  write to one rewrites the other. The record stores the quaternion only, and
  \<open>rotation.set\<close> is the write of the quaternion of the given angles.
\<close>

record Vector3 =
  vx :: real
  vy :: real
  vz :: real

record Quaternion =
  qx :: real
  qy :: real
  qz :: real
  qw :: real

text \<open>The sixteen elements of a \<open>Matrix4\<close>, column by column.\<close>

type_synonym Matrix4 = "real list"

record Object3D =
  position :: Vector3
  quaternion :: Quaternion
  scale :: Vector3
  matrix :: Matrix4
  visible :: bool

definition Vector3_set :: "real \<Rightarrow> real \<Rightarrow> real \<Rightarrow> Vector3" where
  "Vector3_set a b c = \<lparr>vx = a, vy = b, vz = c\<rparr>"

definition Vector3_sub :: "Vector3 \<Rightarrow> Vector3 \<Rightarrow> Vector3" where
  "Vector3_sub u v = \<lparr>vx = vx u - vx v, vy = vy u - vy v, vz = vz u - vz v\<rparr>"

text \<open>
  \<open>Matrix4.fromArray\<close>: \<open>elements[i] = array[i]\<close> for the sixteen indices. The matrix of
  a rigid transform always has sixteen entries; results about \<open>fromArray\<close> are stated
  for arrays of that length.
\<close>

definition fromArray :: "real list \<Rightarrow> Matrix4" where
  "fromArray array = map (\<lambda>i. array ! i) [0..<16]"

text \<open>\<open>Quaternion.setFromEuler\<close> for the default axis order XYZ.\<close>

definition setFromEuler :: "real \<Rightarrow> real \<Rightarrow> real \<Rightarrow> Quaternion" where
  "setFromEuler a b c =
     (let c1 = cos (a / 2); c2 = cos (b / 2); c3 = cos (c / 2);
          s1 = sin (a / 2); s2 = sin (b / 2); s3 = sin (c / 2)
      in \<lparr>qx = s1 * c2 * c3 + c1 * s2 * s3,
          qy = c1 * s2 * c3 - s1 * c2 * s3,
          qz = c1 * c2 * s3 + s1 * s2 * c3,
          qw = c1 * c2 * c3 - s1 * s2 * s3\<rparr>)"

definition rotation_set :: "real \<Rightarrow> real \<Rightarrow> real \<Rightarrow> Object3D \<Rightarrow> Object3D" where
  "rotation_set a b c obj = obj\<lparr>quaternion := setFromEuler a b c\<rparr>"

definition identity_quaternion :: Quaternion where
  "identity_quaternion = \<lparr>qx = 0, qy = 0, qz = 0, qw = 1\<rparr>"

definition identity_matrix :: Matrix4 where
  "identity_matrix = [1, 0, 0, 0,  0, 1, 0, 0,  0, 0, 1, 0,  0, 0, 0, 1]"

text \<open>\<open>new THREE.Group()\<close>: at the origin, not rotated, unit scale, visible.\<close>

definition new_Group :: Object3D where
  "new_Group = \<lparr>position = Vector3_set 0 0 0, quaternion = identity_quaternion,
                scale = Vector3_set 1 1 1, matrix = identity_matrix, visible = True\<rparr>"

section \<open>What the platform hands to the component\<close>

type_synonym XRReferenceSpace = nat
type_synonym XRHitTestSource = nat

text \<open>A pose has a rigid transform, of which the code reads the matrix.\<close>

record XRPose =
  transform_matrix :: "real list"

text \<open>
  \<open>hit.getPose(space)\<close> gives a pose or null; \<open>frame.getHitTestResults(source)\<close> gives
  the results of this frame for a source.
\<close>

type_synonym XRHitTestResult = "XRReferenceSpace \<Rightarrow> XRPose option"
type_synonym XRFrame = "XRHitTestSource \<Rightarrow> XRHitTestResult list"

datatype XRReferenceSpaceType = LocalFloor | BoundedFloor | Local | Viewer

text \<open>The outcome of an awaited promise.\<close>

datatype 'a promise = Rejected | Resolved 'a

text \<open>
  A session answers reference-space requests, and has a \<open>requestHitTestSource\<close> or not
  (the code tests \<open>typeof session.requestHitTestSource === 'function'\<close>); the source it
  resolves to may be null.
\<close>

record XRSession =
  requestReferenceSpace :: "XRReferenceSpaceType \<Rightarrow> XRReferenceSpace promise"
  requestHitTestSource :: "(XRReferenceSpace \<Rightarrow> XRHitTestSource option promise) option"

record XRSystem =
  requestSession :: "XRSession promise"

text \<open>The requests a run of \<open>startARSession\<close> makes, in order.\<close>

datatype xr_call =
    RequestSession
  | SetSession
  | RequestReferenceSpace XRReferenceSpaceType
  | RequestHitTestSource XRReferenceSpace

section \<open>The state of \<open>ArScene\<close>\<close>

text \<open>
  The refs and state variables of the component. \<open>footOpacity\<close> is the opacity of the
  material of the foot mesh, the one child of the marker that is a mesh with a basic
  material. Of the camera the position is kept (\<open>lookAt\<close> turns the camera and is left
  out). Console output is not part of the state.
\<close>

record ArScene =
  modelRef :: "Object3D option"
  markerRef :: "Object3D option"
  footOpacity :: real
  hitTestSourceRef :: "XRHitTestSource option"
  hitTestSourceRequestedRef :: bool
  referenceSpaceRef :: "XRReferenceSpace option"
  rendererRef :: bool
  camera_position :: Vector3
  errorMessage :: string
  isARSessionActive :: bool

text \<open>\<open>markerRef.current?.visible\<close>, as a condition.\<close>

definition marker_visible :: "ArScene \<Rightarrow> bool" where
  "marker_visible s = (case markerRef s of None \<Rightarrow> False | Some mk \<Rightarrow> visible mk)"

subsection \<open>The frame callback\<close>

text \<open>
  \<open>pulseAnimation\<close> reads the clock twice, once for the scale and once for the opacity.
\<close>

definition pulseAnimation :: "real \<times> real \<Rightarrow> ArScene \<Rightarrow> ArScene" where
  "pulseAnimation now s =
     (case markerRef s of
        None \<Rightarrow> s
      | Some mk \<Rightarrow>
          (let sc = 1 + sin (fst now * 0.005) * 0.1;
               opacity = 0.5 + sin (snd now * 0.005) * 0.2
           in s\<lparr>markerRef := Some (mk\<lparr>scale := Vector3_set sc sc sc\<rparr>),
                footOpacity := opacity\<rparr>))"

definition onXRFrame :: "real \<times> real \<Rightarrow> real \<Rightarrow> XRFrame \<Rightarrow> ArScene \<Rightarrow> ArScene" where
  "onXRFrame now time frame s =
     (case hitTestSourceRef s of
        None \<Rightarrow> s
      | Some source \<Rightarrow>
     (case markerRef s of
        None \<Rightarrow> s
      | Some mk \<Rightarrow>
     (case referenceSpaceRef s of
        None \<Rightarrow> s
      | Some space \<Rightarrow>
          (let hitTestResults = frame source in
           if length hitTestResults > 0 then
             (case (hitTestResults ! 0) space of
                Some pose \<Rightarrow>
                  pulseAnimation now
                    (s\<lparr>markerRef :=
                         Some (mk\<lparr>visible := True,
                                  matrix := fromArray (transform_matrix pose)\<rparr>)\<rparr>)
              | None \<Rightarrow> s)
           else s\<lparr>markerRef := Some (mk\<lparr>visible := False\<rparr>)\<rparr>))))"

text \<open>
  \<open>Matrix4.compose\<close> of the library: the matrix of a position, a quaternion and a scale.
\<close>

definition compose :: "Vector3 \<Rightarrow> Quaternion \<Rightarrow> Vector3 \<Rightarrow> Matrix4" where
  "compose p q sc =
     (let x2 = qx q + qx q; y2 = qy q + qy q; z2 = qz q + qz q;
          xx = qx q * x2; xy = qx q * y2; xz = qx q * z2;
          yy = qy q * y2; yz = qy q * z2; zz = qz q * z2;
          wx = qw q * x2; wy = qw q * y2; wz = qw q * z2
      in [(1 - (yy + zz)) * vx sc, (xy + wz) * vx sc, (xz - wy) * vx sc, 0,
          (xy - wz) * vy sc, (1 - (xx + zz)) * vy sc, (yz + wx) * vy sc, 0,
          (xz + wy) * vz sc, (yz - wx) * vz sc, (1 - (xx + yy)) * vz sc, 0,
          vx p, vy p, vz p, 1])"

text \<open>
  \<open>Object3D.updateMatrix\<close>. The library calls it for every object of the scene before it
  draws, unless the object's \<open>matrixAutoUpdate\<close> has been set to false; the component never
  sets it.
\<close>

definition updateMatrix :: "Object3D \<Rightarrow> Object3D" where
  "updateMatrix obj = obj\<lparr>matrix := compose (position obj) (quaternion obj) (scale obj)\<rparr>"

text \<open>
  \<open>renderer.render(scene, camera)\<close>, as far as it changes the state: the matrices of the
  objects of the scene are recomposed. The marker is in the scene from mounting on, the
  model from its load on.
\<close>

definition render :: "ArScene \<Rightarrow> ArScene" where
  "render s = s\<lparr>markerRef := map_option updateMatrix (markerRef s),
                modelRef := map_option updateMatrix (modelRef s)\<rparr>"

text \<open>
  The callback of \<open>setAnimationLoop\<close>: the frame callback when there is an \<open>XRFrame\<close>,
  then the render pass. (\<open>controls.update\<close> moves the camera after pointer input and is
  left out.)
\<close>

definition animationLoop ::
  "real \<times> real \<Rightarrow> real \<Rightarrow> XRFrame option \<Rightarrow> ArScene \<Rightarrow> ArScene" where
  "animationLoop now time frame s =
     render (case frame of Some f \<Rightarrow> onXRFrame now time f s | None \<Rightarrow> s)"

subsection \<open>Selection\<close>

definition onSelect :: "ArScene \<Rightarrow> ArScene" where
  "onSelect s =
     (case modelRef s of
        None \<Rightarrow> s
      | Some m \<Rightarrow>
          (case markerRef s of
             None \<Rightarrow> s
           | Some mk \<Rightarrow>
               if visible mk then
                 (let m1 = m\<lparr>position := position mk\<rparr>;
                      m2 = m1\<lparr>quaternion := quaternion mk\<rparr>;
                      m3 = m2\<lparr>visible := True\<rparr>;
                      m4 = m3\<lparr>position := (position m3)\<lparr>vy := vy (position m3) + 0.05\<rparr>\<rparr>
                  in s\<lparr>modelRef := Some m4\<rparr>)
               else s))"

subsection \<open>Session listeners\<close>

definition sessionstart :: "ArScene \<Rightarrow> ArScene" where
  "sessionstart s =
     (let s1 = s\<lparr>isARSessionActive := True, hitTestSourceRequestedRef := False\<rparr>
      in case modelRef s1 of
           Some m \<Rightarrow>
             s1\<lparr>modelRef := Some (m\<lparr>visible := False, position := Vector3_set 0 0 (-0.5)\<rparr>)\<rparr>
         | None \<Rightarrow> s1)"

definition sessionend :: "ArScene \<Rightarrow> ArScene" where
  "sessionend s =
     (let s1 = s\<lparr>isARSessionActive := False\<rparr>;
          s2 = (case modelRef s1 of
                  Some m \<Rightarrow>
                    s1\<lparr>modelRef :=
                         Some (rotation_set 0 0 0
                                 (m\<lparr>visible := True, position := Vector3_set 0 0 (-0.5)\<rparr>)),
                       camera_position := Vector3_set 0 0 1\<rparr>
                | None \<Rightarrow> s1)
      in case markerRef s2 of
           Some mk \<Rightarrow> s2\<lparr>markerRef := Some (mk\<lparr>visible := False\<rparr>)\<rparr>
         | None \<Rightarrow> s2)"

subsection \<open>Mounting and the loader callback\<close>

text \<open>
  The effect body, when the container exists: the marker is a fresh group, hidden; the
  camera is moved to \<open>z = 0.1\<close>; the foot material starts at opacity \<open>0.7\<close>; no model
  yet.
\<close>

definition mount :: ArScene where
  "mount = \<lparr>modelRef = None,
            markerRef = Some (new_Group\<lparr>visible := False\<rparr>),
            footOpacity = 0.7,
            hitTestSourceRef = None,
            hitTestSourceRequestedRef = False,
            referenceSpaceRef = None,
            rendererRef = True,
            camera_position = Vector3_set 0 0 0.1,
            errorMessage = [],
            isARSessionActive = False\<rparr>"

text \<open>
  The success callback of \<open>loader.load\<close>. \<open>gltf_scene\<close> is the loaded object and
  \<open>center\<close> what \<open>Box3().setFromObject(model).getCenter\<close> computes for it.
\<close>

definition onLoad :: "Object3D \<Rightarrow> Vector3 \<Rightarrow> ArScene \<Rightarrow> ArScene" where
  "onLoad gltf_scene center s =
     (let m1 = gltf_scene\<lparr>scale := Vector3_set 0.1 0.1 0.1\<rparr>;
          m2 = m1\<lparr>visible := True\<rparr>;
          m3 = m2\<lparr>position := Vector3_set 0 0 0\<rparr>;
          m4 = m3\<lparr>position := Vector3_sub (position m3) center\<rparr>
      in s\<lparr>modelRef := Some m4, camera_position := Vector3_set 0 0 1\<rparr>)"

subsection \<open>Starting a session\<close>

definition referenceSpaceTypes :: "XRReferenceSpaceType list" where
  "referenceSpaceTypes = [LocalFloor, BoundedFloor, Local, Viewer]"

text \<open>
  The loop over the types: a granted request ends it (\<open>break\<close>), a rejected one is caught
  and the loop goes on. The result is \<open>refSpace\<close> with the requests made.
\<close>

fun tryReferenceSpaces ::
  "XRSession \<Rightarrow> XRReferenceSpaceType list \<Rightarrow> XRReferenceSpace option \<times> xr_call list" where
  "tryReferenceSpaces session [] = (None, [])"
| "tryReferenceSpaces session (t # ts) =
     (case requestReferenceSpace session t of
        Resolved space \<Rightarrow> (Some space, [RequestReferenceSpace t])
      | Rejected \<Rightarrow>
          (let (refSpace, calls) = tryReferenceSpaces session ts
           in (refSpace, RequestReferenceSpace t # calls)))"

definition msg_no_webxr :: string where
  "msg_no_webxr = ''WebXR not available.''"

definition msg_session_failed :: string where
  "msg_session_failed = ''Could not start AR session. Make sure your device supports WebXR.''"

definition msg_hit_test_failed :: string where
  "msg_hit_test_failed = ''Could not initialize hit testing. Some AR features may be limited.''"

text \<open>
  \<open>startARSession\<close>, with \<open>navigator.xr\<close> as argument (\<open>None\<close> when it is missing). The
  result is the new state and the requests made to the platform, in order.
\<close>

definition startARSession :: "XRSystem option \<Rightarrow> ArScene \<Rightarrow> ArScene \<times> xr_call list" where
  "startARSession navigator_xr s =
     (case navigator_xr of
        None \<Rightarrow> (s\<lparr>errorMessage := msg_no_webxr\<rparr>, [])
      | Some xr \<Rightarrow>
     (case requestSession xr of
        Rejected \<Rightarrow> (s\<lparr>errorMessage := msg_session_failed\<rparr>, [RequestSession])
      | Resolved session \<Rightarrow>
          (let calls1 = RequestSession # (if rendererRef s then [SetSession] else []);
               (refSpace, calls2) = tryReferenceSpaces session referenceSpaceTypes
           in case refSpace of
                None \<Rightarrow> (s\<lparr>errorMessage := msg_session_failed\<rparr>, calls1 @ calls2)
              | Some space \<Rightarrow>
                  (let s1 = s\<lparr>referenceSpaceRef := Some space\<rparr>
                   in case requestHitTestSource session of
                        None \<Rightarrow> (s1, calls1 @ calls2)
                      | Some request \<Rightarrow>
                          (case request space of
                             Rejected \<Rightarrow>
                               (s1\<lparr>errorMessage := msg_hit_test_failed\<rparr>,
                                calls1 @ calls2 @ [RequestHitTestSource space])
                           | Resolved None \<Rightarrow>
                               (s1, calls1 @ calls2 @ [RequestHitTestSource space])
                           | Resolved (Some source) \<Rightarrow>
                               (s1\<lparr>hitTestSourceRef := Some source,
                                   hitTestSourceRequestedRef := True\<rparr>,
                                calls1 @ calls2 @ [RequestHitTestSource space]))))))"

text \<open>The reference-space types requested, and the hit-test requests, of a run.\<close>

fun requested_types :: "xr_call list \<Rightarrow> XRReferenceSpaceType list" where
  "requested_types [] = []"
| "requested_types (RequestReferenceSpace t # cs) = t # requested_types cs"
| "requested_types (c # cs) = requested_types cs"

fun hit_test_requests :: "xr_call list \<Rightarrow> XRReferenceSpace list" where
  "hit_test_requests [] = []"
| "hit_test_requests (RequestHitTestSource space # cs) = space # hit_test_requests cs"
| "hit_test_requests (c # cs) = hit_test_requests cs"

subsection \<open>Events\<close>

text \<open>
  What can happen to a mounted scene: the select event of the controller, a turn of the
  animation loop (with an \<open>XRFrame\<close> or without), the two session events of the renderer,
  a click on the start button, and the completion of the model load. The resize handler
  and \<open>stopARSession\<close> touch nothing of the state modelled here.
\<close>

datatype event =
    Select
  | Frame "real \<times> real" real "XRFrame option"
  | SessionStart
  | SessionEnd
  | StartAR "XRSystem option"
  | ModelLoaded Object3D Vector3

fun step :: "event \<Rightarrow> ArScene \<Rightarrow> ArScene" where
  "step Select s = onSelect s"
| "step (Frame now time frame) s = animationLoop now time frame s"
| "step SessionStart s = sessionstart s"
| "step SessionEnd s = sessionend s"
| "step (StartAR navigator_xr) s = fst (startARSession navigator_xr s)"
| "step (ModelLoaded gltf_scene center) s = onLoad gltf_scene center s"

fun run :: "event list \<Rightarrow> ArScene \<Rightarrow> ArScene" where
  "run [] s = s"
| "run (e # es) s = run es (step e s)"

text \<open>The events of a running session: turns of the animation loop and select events.\<close>

fun during_session :: "event \<Rightarrow> bool" where
  "during_session Select = True"
| "during_session (Frame now time frame) = True"
| "during_session e = False"

text \<open>No select event of the run arrives while the marker is visible.\<close>

fun no_placement :: "event list \<Rightarrow> ArScene \<Rightarrow> bool" where
  "no_placement [] s = True"
| "no_placement (Select # es) s = (\<not> marker_visible s \<and> no_placement es (onSelect s))"
| "no_placement (e # es) s = no_placement es (step e s)"

text \<open>Position and orientation of the model, when there is one.\<close>

definition model_pose :: "ArScene \<Rightarrow> (Vector3 \<times> Quaternion) option" where
  "model_pose s = map_option (\<lambda>m. (position m, quaternion m)) (modelRef s)"

text \<open>
  What the handlers write of an object: position, orientation, scale and visibility, that
  is all of it but the matrix, which the render pass derives from them.
\<close>

definition placement :: "Object3D \<Rightarrow> Vector3 \<times> Quaternion \<times> Vector3 \<times> bool" where
  "placement obj = (position obj, quaternion obj, scale obj, visible obj)"

text \<open>
  The events whose handlers write the position or the orientation of the model: the
  select event, the two session events and the completion of the load.
\<close>

fun writes_model_pose :: "event \<Rightarrow> bool" where
  "writes_model_pose Select = True"
| "writes_model_pose SessionStart = True"
| "writes_model_pose SessionEnd = True"
| "writes_model_pose (ModelLoaded gltf_scene center) = True"
| "writes_model_pose (Frame now time frame) = False"
| "writes_model_pose (StartAR navigator_xr) = False"

text \<open>
  The position a 4x4 transform places its object at: the translation column of the matrix
  (\<open>Vector3.setFromMatrixPosition\<close> of the library).
\<close>

definition matrix_position :: "Matrix4 \<Rightarrow> Vector3" where
  "matrix_position m = Vector3_set (m ! 12) (m ! 13) (m ! 14)"

text \<open>The marker's own position and orientation fields are as a fresh group has them.\<close>

definition marker_at_origin :: "ArScene \<Rightarrow> bool" where
  "marker_at_origin s =
     (case markerRef s of
        None \<Rightarrow> True
      | Some mk \<Rightarrow> position mk = Vector3_set 0 0 0 \<and> quaternion mk = identity_quaternion)"

section \<open>The certificate script\<close>

text \<open>
  \<open>scripts/generate-cert.js\<close> runs three \<open>openssl\<close> commands through \<open>execSync\<close> and
  removes the request file. Paths are taken relative to the directory of the script
  (\<open>__dirname\<close>). The host is what the script meets: the paths that exist, whether
  \<open>mkdirSync\<close> and each \<open>openssl\<close> command succeed, and the command line, which the
  script never reads.
\<close>

type_synonym path = string

definition path_join :: "path \<Rightarrow> string \<Rightarrow> path" where
  "path_join dir name = dir @ ''/'' @ name"

definition certsDir :: path where
  "certsDir = ''../certs''"

text \<open>
  The three command lines: \<open>genrsa -out key 2048\<close>, \<open>req -new -key key -out csr\<close> and
  \<open>x509 -req -days 365 -in csr -signkey key -out cert\<close>.
\<close>

datatype openssl =
    GenRsa path
  | Req path path
  | X509 path path path

fun out_file :: "openssl \<Rightarrow> path" where
  "out_file (GenRsa out) = out"
| "out_file (Req key out) = out"
| "out_file (X509 inp key out) = out"

record host =
  files :: "path set"
  mkdir_ok :: bool
  openssl_ok :: "openssl \<Rightarrow> bool"
  argv :: "string list"

datatype fs_op = Mkdir path | Write path | Unlink path

text \<open>The paths that exist, and what has been done to the file system so far.\<close>

type_synonym disk = "path set \<times> fs_op list"

text \<open>
  Each call either throws (\<open>Inl\<close>, with the disk as it is) or returns (\<open>Inr\<close>). A
  command that exits with status zero has written its output file; \<open>unlinkSync\<close> throws
  when the file is not there.
\<close>

definition mkdirSync :: "host \<Rightarrow> path \<Rightarrow> disk \<Rightarrow> disk + disk" where
  "mkdirSync h dir d =
     (if mkdir_ok h then Inr (insert dir (fst d), snd d @ [Mkdir dir]) else Inl d)"

definition execSync :: "host \<Rightarrow> openssl \<Rightarrow> disk \<Rightarrow> disk + disk" where
  "execSync h cmd d =
     (if openssl_ok h cmd
      then Inr (insert (out_file cmd) (fst d), snd d @ [Write (out_file cmd)])
      else Inl d)"

definition unlinkSync :: "path \<Rightarrow> disk \<Rightarrow> disk + disk" where
  "unlinkSync p d =
     (if p \<in> fst d then Inr (fst d - {p}, snd d @ [Unlink p]) else Inl d)"

definition key_pem :: path where
  "key_pem = path_join certsDir ''key.pem''"

definition csr_pem :: path where
  "csr_pem = path_join certsDir ''csr.pem''"

definition cert_pem :: path where
  "cert_pem = path_join certsDir ''cert.pem''"

text \<open>The body of the \<open>try\<close> block.\<close>

definition try_block :: "host \<Rightarrow> disk \<Rightarrow> disk + disk" where
  "try_block h d =
     (case execSync h (GenRsa key_pem) d of
        Inl e \<Rightarrow> Inl e
      | Inr d1 \<Rightarrow>
     (case execSync h (Req key_pem csr_pem) d1 of
        Inl e \<Rightarrow> Inl e
      | Inr d2 \<Rightarrow>
     (case execSync h (X509 csr_pem key_pem cert_pem) d2 of
        Inl e \<Rightarrow> Inl e
      | Inr d3 \<Rightarrow> unlinkSync csr_pem d3)))"

record outcome =
  exit_status :: nat
  disk_after :: disk

text \<open>
  The script. An exception of \<open>mkdirSync\<close> is not caught and ends the process with
  status 1; the \<open>catch\<close> block calls \<open>process.exit(1)\<close>; otherwise the script runs to
  its end, status 0.
\<close>

definition generate_cert :: "host \<Rightarrow> outcome" where
  "generate_cert h =
     (let d0 = (files h, [])
      in case (if certsDir \<notin> files h then mkdirSync h certsDir d0 else Inr d0) of
           Inl e \<Rightarrow> \<lparr>exit_status = 1, disk_after = e\<rparr>
         | Inr d1 \<Rightarrow>
             (case try_block h d1 of
                Inl e \<Rightarrow> \<lparr>exit_status = 1, disk_after = e\<rparr>
              | Inr d2 \<Rightarrow> \<lparr>exit_status = 0, disk_after = d2\<rparr>))"

text \<open>The files written, in order.\<close>

fun written :: "fs_op list \<Rightarrow> path list" where
  "written [] = []"
| "written (Write p # ops) = p # written ops"
| "written (c # ops) = written ops"

section \<open>Example inputs\<close>

text \<open>A mounted scene whose model has loaded.\<close>

definition scene_loaded :: ArScene where
  "scene_loaded = onLoad new_Group (Vector3_set 0 0 0) mount"

text \<open>A session that grants the viewer space only, as space 4, and hit-test source 7.\<close>

definition viewer_only_session :: XRSession where
  "viewer_only_session =
     \<lparr>requestReferenceSpace = (\<lambda>t. if t = Viewer then Resolved 4 else Rejected),
      requestHitTestSource = Some (\<lambda>space. Resolved (Some 7))\<rparr>"

definition viewer_only_xr :: XRSystem where
  "viewer_only_xr = \<lparr>requestSession = Resolved viewer_only_session\<rparr>"

text \<open>A session that grants the local space (and would grant the viewer space).\<close>

definition local_session :: XRSession where
  "local_session =
     \<lparr>requestReferenceSpace =
        (\<lambda>t. if t = Local then Resolved 3 else if t = Viewer then Resolved 4 else Rejected),
      requestHitTestSource = None\<rparr>"

definition local_xr :: XRSystem where
  "local_xr = \<lparr>requestSession = Resolved local_session\<rparr>"

text \<open>A session that grants no reference space.\<close>

definition no_space_session :: XRSession where
  "no_space_session =
     \<lparr>requestReferenceSpace = (\<lambda>t. Rejected),
      requestHitTestSource = Some (\<lambda>space. Resolved (Some 7))\<rparr>"

definition no_space_xr :: XRSystem where
  "no_space_xr = \<lparr>requestSession = Resolved no_space_session\<rparr>"

text \<open>A pose one unit right, two up and three back of the origin, not rotated.\<close>

definition pose_123 :: XRPose where
  "pose_123 = \<lparr>transform_matrix = [1, 0, 0, 0,  0, 1, 0, 0,  0, 0, 1, 0,  1, 2, 3, 1]\<rparr>"

definition frame_hit :: XRFrame where
  "frame_hit = (\<lambda>source. [\<lambda>space. Some pose_123])"

definition frame_empty :: XRFrame where
  "frame_empty = (\<lambda>source. [])"

text \<open>
  The model has loaded and \<open>startARSession\<close> has run, with the viewer space and a
  hit-test source as its result.
\<close>

definition scene_started :: ArScene where
  "scene_started = fst (startARSession (Some viewer_only_xr) scene_loaded)"

text \<open>The same, after the session-start event.\<close>

definition scene_in_session :: ArScene where
  "scene_in_session = sessionstart scene_started"

text \<open>
  The same, after the frame callback has run on a frame whose hit test finds the surface
  at \<open>pose_123\<close>, before the render pass.
\<close>

definition scene_marker_shown :: ArScene where
  "scene_marker_shown = onXRFrame (0, 0) 0 frame_hit scene_in_session"

text \<open>
  Events of a session: a frame without a hit, a select event (the marker is hidden), and
  a frame whose hit test finds the surface.
\<close>

definition events_without_placement :: "event list" where
  "events_without_placement =
     [Frame (0, 0) 0 (Some frame_empty), Select, Frame (0, 0) 0 (Some frame_hit)]"

text \<open>
  The state after the whole turn of the animation loop for that frame: the frame callback
  and the render pass.
\<close>

definition scene_frame_rendered :: ArScene where
  "scene_frame_rendered = animationLoop (0, 0) 0 (Some frame_hit) scene_in_session"

text \<open>The state \<open>scene_marker_shown\<close>, after a select event has placed the model.\<close>

definition scene_placed :: ArScene where
  "scene_placed = onSelect scene_marker_shown"

text \<open>A host on which every step works, and one whose certificate request fails.\<close>

definition host_ok :: host where
  "host_ok = \<lparr>files = {}, mkdir_ok = True, openssl_ok = (\<lambda>cmd. True), argv = []\<rparr>"

definition host_req_fails :: host where
  "host_req_fails =
     \<lparr>files = {certsDir}, mkdir_ok = True,
      openssl_ok = (\<lambda>cmd. case cmd of Req key out \<Rightarrow> False | _ \<Rightarrow> True),
      argv = []\<rparr>"

section \<open>The frame callback: the marker follows the hit test\<close>

lemma fromArray_16: "length array = 16 \<Longrightarrow> fromArray array = array"
  unfolding fromArray_def by (metis map_nth)

lemma setFromEuler_zero: "setFromEuler 0 0 0 = identity_quaternion"
  by (simp add: setFromEuler_def identity_quaternion_def)

text \<open>
  Claim C5. In a frame in which a hit-test source, the marker and a reference space are
  set and the hit-test query has no result, the marker is hidden; nothing else of the
  marker changes.
\<close>

theorem onXRFrame_no_results_hides_marker:
  assumes "hitTestSourceRef s = Some source"
      and "markerRef s = Some mk"
      and "referenceSpaceRef s = Some space"
      and "frame source = []"
  shows "markerRef (onXRFrame now time frame s) = Some (mk\<lparr>visible := False\<rparr>)
         \<and> \<not> marker_visible (onXRFrame now time frame s)"
  using assms by (simp add: onXRFrame_def marker_visible_def)

theorem onXRFrame_no_results_hides_marker_witness:
  "markerRef (onXRFrame (0, 0) 0 frame_empty scene_marker_shown) =
     Some ((the (markerRef scene_marker_shown))\<lparr>visible := False\<rparr>)
   \<and> marker_visible scene_marker_shown
   \<and> \<not> marker_visible (onXRFrame (0, 0) 0 frame_empty scene_marker_shown)"
  using onXRFrame_no_results_hides_marker
    [of scene_marker_shown 7 "the (markerRef scene_marker_shown)" 4 frame_empty "(0, 0)" 0]
  by (simp add: frame_empty_def marker_visible_def scene_marker_shown_def onXRFrame_def pulseAnimation_def frame_hit_def pose_123_def fromArray_16 Let_def
      scene_in_session_def sessionstart_def scene_started_def startARSession_def viewer_only_xr_def viewer_only_session_def
      referenceSpaceTypes_def scene_loaded_def mount_def onLoad_def new_Group_def Vector3_set_def Vector3_sub_def
      identity_quaternion_def identity_matrix_def)

text \<open>
  What the frame callback leaves when the first hit-test result has a pose: the marker is
  visible and its matrix holds the sixteen elements of the pose's matrix.
\<close>

lemma onXRFrame_hit_shows_marker_at_pose:
  assumes "hitTestSourceRef s = Some source"
      and "markerRef s = Some mk"
      and "referenceSpaceRef s = Some space"
      and "frame source = hit # others"
      and "hit space = Some pose"
      and "length (transform_matrix pose) = 16"
  shows "map_option visible (markerRef (onXRFrame now time frame s)) = Some True
       \<and> map_option matrix (markerRef (onXRFrame now time frame s))
           = Some (transform_matrix pose)"
  using assms by (simp add: onXRFrame_def pulseAnimation_def fromArray_16 Let_def)

text \<open>
  The turn of the animation loop does not end there: the render pass follows and
  recomposes the matrix of the marker from its position, quaternion and scale. What the
  frame callback wrote into the matrix is gone when the frame has been rendered.
\<close>

lemma animationLoop_hit_recomposes_marker:
  assumes "hitTestSourceRef s = Some source"
      and "markerRef s = Some mk"
      and "referenceSpaceRef s = Some space"
      and "frame source = hit # others"
      and "hit space = Some pose"
  shows "map_option visible (markerRef (animationLoop now time (Some frame) s)) = Some True"
    and "map_option matrix (markerRef (animationLoop now time (Some frame) s))
           = Some (compose (position mk) (quaternion mk)
                     (Vector3_set (1 + sin (fst now * 0.005) * 0.1)
                        (1 + sin (fst now * 0.005) * 0.1) (1 + sin (fst now * 0.005) * 0.1)))"
  using assms
  by (simp_all add: animationLoop_def render_def updateMatrix_def onXRFrame_def
      pulseAnimation_def Let_def)

lemma matrix_position_compose: "matrix_position (compose p q sc) = p"
  by (simp add: matrix_position_def compose_def Vector3_set_def Let_def)

text \<open>
  As no handler moves the marker itself, the rendered matrix places it at the origin
  whatever the pose of the hit is.
\<close>

lemma animationLoop_hit_marker_stays_at_origin:
  assumes "marker_at_origin s"
      and "hitTestSourceRef s = Some source"
      and "markerRef s = Some mk"
      and "referenceSpaceRef s = Some space"
      and "frame source = hit # others"
      and "hit space = Some pose"
  shows "map_option (\<lambda>obj. matrix_position (matrix obj))
           (markerRef (animationLoop now time (Some frame) s)) = Some (Vector3_set 0 0 0)"
  using assms
  by (simp add: marker_at_origin_def animationLoop_def render_def updateMatrix_def
      onXRFrame_def pulseAnimation_def matrix_position_compose Let_def)

text \<open>
  Claim C4, at a concrete frame. A session runs with a hit-test source, a reference space
  and the marker, and the first hit-test result of the frame has the pose \<open>pose_123\<close>.
  The marker is visible after the frame. Its matrix is the pose matrix when the frame
  callback returns, but after the render pass that ends the same turn of the animation
  loop it is the identity matrix, not the matrix of the pose.
\<close>

theorem animationLoop_hit_marker_matrix_not_pose:
  "hitTestSourceRef scene_in_session = Some 7
   \<and> referenceSpaceRef scene_in_session = Some 4
   \<and> markerRef scene_in_session \<noteq> None
   \<and> (frame_hit 7 ! 0) 4 = Some pose_123
   \<and> map_option matrix (markerRef (onXRFrame (0, 0) 0 frame_hit scene_in_session))
       = Some (transform_matrix pose_123)
   \<and> map_option visible (markerRef scene_frame_rendered) = Some True
   \<and> map_option matrix (markerRef scene_frame_rendered) = Some identity_matrix
   \<and> map_option matrix (markerRef scene_frame_rendered) \<noteq> Some (transform_matrix pose_123)"
  by (simp add: scene_frame_rendered_def animationLoop_def render_def updateMatrix_def
      compose_def onXRFrame_def pulseAnimation_def frame_hit_def pose_123_def fromArray_16
      Let_def scene_in_session_def sessionstart_def scene_started_def startARSession_def
      viewer_only_xr_def viewer_only_session_def referenceSpaceTypes_def scene_loaded_def
      mount_def onLoad_def new_Group_def Vector3_set_def Vector3_sub_def
      identity_quaternion_def identity_matrix_def)

section \<open>Selection\<close>

text \<open>What a select event does when it places the model.\<close>

lemma onSelect_places:
  assumes "modelRef s = Some m" and "markerRef s = Some mk" and "visible mk"
  shows "modelRef (onSelect s) =
           Some (m\<lparr>position := (position mk)\<lparr>vy := vy (position mk) + 0.05\<rparr>,
                   quaternion := quaternion mk, visible := True\<rparr>)"
  using assms by (simp add: onSelect_def)

text \<open>
  No handler writes the position or the quaternion of the marker: the frame callback
  writes its matrix, its scale and its visibility, the render pass its matrix. So in
  every state the scene can reach they are those of a fresh group.
\<close>

lemma step_marker_at_origin: "marker_at_origin s \<Longrightarrow> marker_at_origin (step e s)"
proof (cases e)
  case (StartAR navigator_xr)
  assume "marker_at_origin s"
  then show ?thesis
    using StartAR
    by (auto simp: marker_at_origin_def startARSession_def Let_def
        split: option.splits promise.splits prod.splits)
qed (auto simp: marker_at_origin_def onSelect_def onXRFrame_def pulseAnimation_def
    animationLoop_def render_def updateMatrix_def sessionstart_def sessionend_def onLoad_def
    Let_def split: option.splits)

lemma run_marker_at_origin: "marker_at_origin s \<Longrightarrow> marker_at_origin (run es s)"
  by (induction es arbitrary: s) (simp_all add: step_marker_at_origin)

lemma mount_marker_at_origin: "marker_at_origin mount"
  by (simp add: marker_at_origin_def mount_def new_Group_def)

lemma onSelect_reachable_places_at_origin:
  assumes "modelRef (run es mount) = Some m" and "marker_visible (run es mount)"
  shows "map_option position (modelRef (onSelect (run es mount))) = Some (Vector3_set 0 0.05 0)"
    and "map_option quaternion (modelRef (onSelect (run es mount))) = Some identity_quaternion"
  using assms run_marker_at_origin [OF mount_marker_at_origin, of es]
  by (auto simp: marker_at_origin_def marker_visible_def onSelect_def Vector3_set_def
      split: option.splits)


text \<open>
  Claim C6. A select event that arrives while no model is loaded or the marker is hidden
  changes nothing: position, orientation, scale and visibility of the model, and all the
  rest of the state, are as before.
\<close>

theorem onSelect_without_target_is_noop:
  "modelRef s = None \<or> \<not> marker_visible s \<Longrightarrow> onSelect s = s"
  by (auto simp: onSelect_def marker_visible_def split: option.splits)

theorem onSelect_without_target_is_noop_witness:
  "modelRef scene_in_session \<noteq> None \<and> \<not> marker_visible scene_in_session
   \<and> onSelect scene_in_session = scene_in_session
   \<and> modelRef mount = None \<and> onSelect mount = mount"
  using onSelect_without_target_is_noop [of scene_in_session]
    onSelect_without_target_is_noop [of mount]
  by (simp add: marker_visible_def scene_in_session_def sessionstart_def scene_started_def startARSession_def viewer_only_xr_def viewer_only_session_def
      referenceSpaceTypes_def scene_loaded_def mount_def onLoad_def new_Group_def Vector3_set_def Vector3_sub_def
      identity_quaternion_def identity_matrix_def)

section \<open>Session events\<close>

text \<open>
  Claim C7. After the session-end listener a loaded model is visible, at position
  \<open>(0, 0, -0.5)\<close> and with the orientation of the rotation \<open>(0, 0, 0)\<close>, and the marker is
  hidden.
\<close>

theorem sessionend_resets_model_and_hides_marker:
  "(modelRef s = Some m \<longrightarrow>
      modelRef (sessionend s) =
        Some (m\<lparr>visible := True, position := Vector3_set 0 0 (-0.5),
                quaternion := setFromEuler 0 0 0\<rparr>)
      \<and> setFromEuler 0 0 0 = identity_quaternion)
   \<and> \<not> marker_visible (sessionend s)"
  by (simp add: sessionend_def marker_visible_def rotation_set_def setFromEuler_zero Let_def
      split: option.splits)

theorem sessionend_resets_model_and_hides_marker_witness:
  "marker_visible scene_marker_shown
   \<and> map_option visible (modelRef scene_marker_shown) = Some False
   \<and> map_option visible (modelRef (sessionend scene_marker_shown)) = Some True
   \<and> map_option position (modelRef (sessionend scene_marker_shown))
       = Some (Vector3_set 0 0 (-0.5))
   \<and> map_option quaternion (modelRef (sessionend scene_marker_shown))
       = Some identity_quaternion
   \<and> \<not> marker_visible (sessionend scene_marker_shown)"
  using sessionend_resets_model_and_hides_marker
    [of scene_marker_shown "the (modelRef scene_marker_shown)"]
  by (simp add: sessionend_def rotation_set_def setFromEuler_zero marker_visible_def
      scene_marker_shown_def onXRFrame_def pulseAnimation_def frame_hit_def pose_123_def fromArray_16 Let_def
      scene_in_session_def sessionstart_def scene_started_def startARSession_def viewer_only_xr_def viewer_only_session_def
      referenceSpaceTypes_def scene_loaded_def mount_def onLoad_def new_Group_def Vector3_set_def Vector3_sub_def
      identity_quaternion_def identity_matrix_def)

text \<open>
  The frame callback and \<open>startARSession\<close> do not touch the model; the render pass
  recomposes its matrix and leaves the rest of it.
\<close>

lemma onXRFrame_modelRef: "modelRef (onXRFrame now time frame s) = modelRef s"
  by (simp add: onXRFrame_def pulseAnimation_def Let_def split: option.splits)

lemma startARSession_modelRef: "modelRef (fst (startARSession navigator_xr s)) = modelRef s"
  by (simp add: startARSession_def Let_def split: option.splits promise.splits prod.splits)

lemma animationLoop_modelRef:
  "modelRef (animationLoop now time frame s) = map_option updateMatrix (modelRef s)"
  by (simp add: animationLoop_def render_def onXRFrame_modelRef split: option.splits)

lemma placement_updateMatrix: "placement (updateMatrix obj) = placement obj"
  by (simp add: placement_def updateMatrix_def)

lemma placement_map_updateMatrix:
  "map_option placement (map_option updateMatrix obj) = map_option placement obj"
  by (cases obj) (simp_all add: placement_updateMatrix)

lemma pose_map_updateMatrix:
  "map_option (\<lambda>m. (position m, quaternion m)) (map_option updateMatrix obj)
     = map_option (\<lambda>m. (position m, quaternion m)) obj"
  by (cases obj) (simp_all add: updateMatrix_def)

lemma animationLoop_placement:
  "map_option placement (modelRef (animationLoop now time frame s))
     = map_option placement (modelRef s)"
  by (simp add: animationLoop_modelRef placement_map_updateMatrix)

lemma run_without_placement:
  "list_all during_session es \<Longrightarrow> no_placement es s \<Longrightarrow>
     map_option placement (modelRef (run es s)) = map_option placement (modelRef s)"
proof (induction es arbitrary: s)
  case Nil
  then show ?case by simp
next
  case (Cons e es)
  show ?case
  proof (cases e)
    case Select
    with Cons.prems have hidden: "\<not> marker_visible s" and rest: "no_placement es (onSelect s)"
      and all: "list_all during_session es"
      by simp_all
    have same: "onSelect s = s"
      using hidden by (auto simp: onSelect_def marker_visible_def split: option.splits)
    show ?thesis using Cons.IH [OF all rest] Select same by simp
  next
    case (Frame now time frame)
    with Cons.prems have rest: "no_placement es (animationLoop now time frame s)"
      and all: "list_all during_session es"
      by simp_all
    show ?thesis using Cons.IH [OF all rest] Frame by (simp add: animationLoop_placement)
  qed (use Cons.prems in simp_all)
qed

text \<open>
  Claim C10. The session-start listener hides a loaded model and puts it at
  \<open>(0, 0, -0.5)\<close>. Through the turns of the animation loop and the select events of the
  session it stays hidden and there, with its orientation and scale, as long as no select
  event arrives while the marker is visible; a select event that arrives while the marker
  is visible makes it visible.
\<close>

theorem sessionstart_hides_model_until_placement:
  assumes "modelRef s = Some m"
      and "list_all during_session es"
      and "no_placement es (sessionstart s)"
  shows "modelRef (sessionstart s)
           = Some (m\<lparr>visible := False, position := Vector3_set 0 0 (-0.5)\<rparr>)
       \<and> map_option placement (modelRef (run es (sessionstart s)))
           = Some (Vector3_set 0 0 (-0.5), quaternion m, scale m, False)
       \<and> (marker_visible (run es (sessionstart s)) \<longrightarrow>
            map_option visible (modelRef (onSelect (run es (sessionstart s)))) = Some True)"
proof -
  have start: "modelRef (sessionstart s)
                 = Some (m\<lparr>visible := False, position := Vector3_set 0 0 (-0.5)\<rparr>)"
    using assms(1) by (simp add: sessionstart_def Let_def)
  have kept: "map_option placement (modelRef (run es (sessionstart s)))
                = map_option placement (modelRef (sessionstart s))"
    using assms(2,3) by (rule run_without_placement)
  have hidden: "map_option placement (modelRef (run es (sessionstart s)))
                  = Some (Vector3_set 0 0 (-0.5), quaternion m, scale m, False)"
    using kept start by (simp add: placement_def)
  have "map_option visible (modelRef (onSelect (run es (sessionstart s)))) = Some True"
    if "marker_visible (run es (sessionstart s))"
    using that hidden
    by (auto simp: onSelect_def marker_visible_def split: option.splits)
  with start hidden show ?thesis by simp
qed

theorem sessionstart_hides_model_until_placement_witness:
  "map_option visible (modelRef scene_started) = Some True
   \<and> map_option visible (modelRef (sessionstart scene_started)) = Some False
   \<and> map_option position (modelRef (sessionstart scene_started))
       = Some (Vector3_set 0 0 (-0.5))
   \<and> map_option placement
         (modelRef (run events_without_placement (sessionstart scene_started)))
       = Some (Vector3_set 0 0 (-0.5), identity_quaternion, Vector3_set 0.1 0.1 0.1, False)
   \<and> marker_visible (run events_without_placement (sessionstart scene_started))
   \<and> map_option visible
         (modelRef (onSelect (run events_without_placement (sessionstart scene_started))))
       = Some True"
  using sessionstart_hides_model_until_placement
    [of scene_started "the (modelRef scene_started)" events_without_placement]
  by (simp add: events_without_placement_def frame_empty_def onSelect_def marker_visible_def
      placement_def sessionstart_def animationLoop_def render_def updateMatrix_def
      onXRFrame_def pulseAnimation_def frame_hit_def pose_123_def fromArray_16 Let_def
      scene_started_def startARSession_def viewer_only_xr_def viewer_only_session_def
      referenceSpaceTypes_def scene_loaded_def mount_def onLoad_def new_Group_def Vector3_set_def Vector3_sub_def
      identity_quaternion_def identity_matrix_def)

section \<open>Who writes the pose of the model\<close>

text \<open>
  Claim C8, as stated, at concrete states: the session-end listener, the session-start
  listener and the loader callback each change the position of the model, and none of
  them is a select event.
\<close>

theorem session_events_and_load_write_model_pose:
  "model_pose (step SessionEnd scene_placed) \<noteq> model_pose scene_placed
   \<and> model_pose (step SessionStart scene_placed) \<noteq> model_pose scene_placed
   \<and> model_pose (step (ModelLoaded new_Group (Vector3_set 0 0 0)) mount) \<noteq> model_pose mount"
  by (simp add: model_pose_def scene_placed_def onSelect_def sessionend_def rotation_set_def
      scene_marker_shown_def onXRFrame_def pulseAnimation_def frame_hit_def pose_123_def
      fromArray_16 Let_def scene_in_session_def sessionstart_def scene_started_def
      startARSession_def viewer_only_xr_def viewer_only_session_def referenceSpaceTypes_def
      scene_loaded_def mount_def onLoad_def new_Group_def Vector3_set_def Vector3_sub_def
      identity_quaternion_def identity_matrix_def)

text \<open>
  Claim C8, amended. The pose of the model is written by the select event, by the two
  session listeners and by the loader callback only. A run of \<open>startARSession\<close> leaves
  the model as it is, and a turn of the animation loop leaves its position, orientation,
  scale and visibility as they are: all it does to the model is to recompose the matrix
  from them in the render pass.
\<close>

theorem other_events_keep_model:
  "\<not> writes_model_pose e \<Longrightarrow>
     model_pose (step e s) = model_pose s
     \<and> map_option placement (modelRef (step e s)) = map_option placement (modelRef s)
     \<and> modelRef (step e s)
         = (case e of
              Frame now time frame \<Rightarrow> map_option updateMatrix (modelRef s)
            | _ \<Rightarrow> modelRef s)"
  by (cases e)
    (simp_all add: model_pose_def animationLoop_modelRef startARSession_modelRef
      placement_map_updateMatrix pose_map_updateMatrix)

theorem other_events_keep_model_witness:
  "\<not> writes_model_pose (Frame (0, 0) 0 (Some frame_hit))
   \<and> markerRef (step (Frame (0, 0) 0 (Some frame_hit)) scene_in_session)
       \<noteq> markerRef scene_in_session
   \<and> model_pose (step (Frame (0, 0) 0 (Some frame_hit)) scene_in_session)
       = model_pose scene_in_session
   \<and> map_option placement (modelRef (step (Frame (0, 0) 0 (Some frame_hit)) scene_in_session))
       = map_option placement (modelRef scene_in_session)"
  using other_events_keep_model [of "Frame (0, 0) 0 (Some frame_hit)" scene_in_session]
  by (simp add: animationLoop_def render_def updateMatrix_def onXRFrame_def
      pulseAnimation_def frame_hit_def pose_123_def fromArray_16 Let_def
      scene_in_session_def sessionstart_def scene_started_def startARSession_def
      viewer_only_xr_def viewer_only_session_def referenceSpaceTypes_def scene_loaded_def
      mount_def onLoad_def new_Group_def Vector3_set_def Vector3_sub_def
      identity_quaternion_def identity_matrix_def)

section \<open>Starting a session: the reference space\<close>

lemma requested_types_append:
  "requested_types (cs @ ds) = requested_types cs @ requested_types ds"
  by (induction cs rule: requested_types.induct) simp_all

lemma requested_types_map: "requested_types (map RequestReferenceSpace ts) = ts"
  by (induction ts) simp_all

lemma hit_test_requests_append:
  "hit_test_requests (cs @ ds) = hit_test_requests cs @ hit_test_requests ds"
  by (induction cs rule: hit_test_requests.induct) simp_all

lemma hit_test_requests_map: "hit_test_requests (map RequestReferenceSpace ts) = []"
  by (induction ts) simp_all

lemma tryReferenceSpaces_granted:
  assumes "\<forall>u \<in> set pre. requestReferenceSpace session u = Rejected"
      and "requestReferenceSpace session t = Resolved space"
  shows "tryReferenceSpaces session (pre @ t # post)
           = (Some space, map RequestReferenceSpace (pre @ [t]))"
  using assms by (induction pre) simp_all

lemma tryReferenceSpaces_rejected:
  assumes "\<forall>u \<in> set ts. requestReferenceSpace session u = Rejected"
  shows "tryReferenceSpaces session ts = (None, map RequestReferenceSpace ts)"
  using assms by (induction ts) simp_all

text \<open>
  Claim C3. When the session is granted, \<open>startARSession\<close> asks for the reference
  spaces in the order local-floor, bounded-floor, local, viewer. It takes the first one
  granted and asks for none after it. When all four are rejected it sets the error
  message shown to the user, sets no reference space and asks for no hit-test source.
\<close>

theorem startARSession_reference_space_order:
  assumes "requestSession xr = Resolved session"
  shows "referenceSpaceTypes = [LocalFloor, BoundedFloor, Local, Viewer]
     \<and> (referenceSpaceTypes = pre @ t # post
          \<and> (\<forall>u \<in> set pre. requestReferenceSpace session u = Rejected)
          \<and> requestReferenceSpace session t = Resolved space
        \<longrightarrow> requested_types (snd (startARSession (Some xr) s)) = pre @ [t]
            \<and> referenceSpaceRef (fst (startARSession (Some xr) s)) = Some space)
     \<and> ((\<forall>u \<in> set referenceSpaceTypes. requestReferenceSpace session u = Rejected)
        \<longrightarrow> requested_types (snd (startARSession (Some xr) s)) = referenceSpaceTypes
            \<and> hit_test_requests (snd (startARSession (Some xr) s)) = []
            \<and> errorMessage (fst (startARSession (Some xr) s))
                = ''Could not start AR session. Make sure your device supports WebXR.''
            \<and> referenceSpaceRef (fst (startARSession (Some xr) s)) = referenceSpaceRef s
            \<and> hitTestSourceRef (fst (startARSession (Some xr) s)) = hitTestSourceRef s)"
proof (intro conjI impI)
  show "referenceSpaceTypes = [LocalFloor, BoundedFloor, Local, Viewer]"
    by (simp add: referenceSpaceTypes_def)
next
  assume h: "referenceSpaceTypes = pre @ t # post
          \<and> (\<forall>u \<in> set pre. requestReferenceSpace session u = Rejected)
          \<and> requestReferenceSpace session t = Resolved space"
  then have tried: "tryReferenceSpaces session referenceSpaceTypes
           = (Some space, map RequestReferenceSpace (pre @ [t]))"
    using tryReferenceSpaces_granted [of pre session t space post] by simp
  show "requested_types (snd (startARSession (Some xr) s)) = pre @ [t]"
    using assms tried
    by (simp add: startARSession_def Let_def requested_types_append requested_types_map
        del: map_append split: option.splits promise.splits)
  show "referenceSpaceRef (fst (startARSession (Some xr) s)) = Some space"
    using assms tried
    by (simp add: startARSession_def Let_def split: option.splits promise.splits)
next
  assume h: "\<forall>u \<in> set referenceSpaceTypes. requestReferenceSpace session u = Rejected"
  then have tried: "tryReferenceSpaces session referenceSpaceTypes
           = (None, map RequestReferenceSpace referenceSpaceTypes)"
    by (rule tryReferenceSpaces_rejected)
  show "requested_types (snd (startARSession (Some xr) s)) = referenceSpaceTypes"
    using assms tried
    by (simp add: startARSession_def Let_def requested_types_append requested_types_map)
  show "hit_test_requests (snd (startARSession (Some xr) s)) = []"
    using assms tried
    by (simp add: startARSession_def Let_def hit_test_requests_append hit_test_requests_map)
  show "errorMessage (fst (startARSession (Some xr) s))
                = ''Could not start AR session. Make sure your device supports WebXR.''"
    using assms tried by (simp add: startARSession_def Let_def msg_session_failed_def)
  show "referenceSpaceRef (fst (startARSession (Some xr) s)) = referenceSpaceRef s"
    using assms tried by (simp add: startARSession_def Let_def)
  show "hitTestSourceRef (fst (startARSession (Some xr) s)) = hitTestSourceRef s"
    using assms tried by (simp add: startARSession_def Let_def)
qed

theorem startARSession_reference_space_order_witness:
  "requested_types (snd (startARSession (Some local_xr) scene_loaded))
     = [LocalFloor, BoundedFloor, Local]
   \<and> referenceSpaceRef (fst (startARSession (Some local_xr) scene_loaded)) = Some 3
   \<and> requested_types (snd (startARSession (Some no_space_xr) scene_loaded))
     = [LocalFloor, BoundedFloor, Local, Viewer]
   \<and> hit_test_requests (snd (startARSession (Some no_space_xr) scene_loaded)) = []
   \<and> errorMessage (fst (startARSession (Some no_space_xr) scene_loaded))
     = ''Could not start AR session. Make sure your device supports WebXR.''"
proof -
  have types: "referenceSpaceTypes = [LocalFloor, BoundedFloor] @ Local # [Viewer]"
    by (simp add: referenceSpaceTypes_def)
  have before:
    "\<forall>u \<in> set [LocalFloor, BoundedFloor]. requestReferenceSpace local_session u = Rejected"
    by (simp add: local_session_def)
  have granted: "requestReferenceSpace local_session Local = Resolved 3"
    by (simp add: local_session_def)
  have session1: "requestSession local_xr = Resolved local_session"
    by (simp add: local_xr_def)
  have session2: "requestSession no_space_xr = Resolved no_space_session"
    by (simp add: no_space_xr_def)
  have none:
    "\<forall>u \<in> set referenceSpaceTypes. requestReferenceSpace no_space_session u = Rejected"
    by (simp add: no_space_session_def)
  have first:
    "requested_types (snd (startARSession (Some local_xr) scene_loaded))
       = [LocalFloor, BoundedFloor] @ [Local]
     \<and> referenceSpaceRef (fst (startARSession (Some local_xr) scene_loaded)) = Some 3"
    using startARSession_reference_space_order
        [of local_xr local_session "[LocalFloor, BoundedFloor]" Local "[Viewer]" 3
            scene_loaded]
      session1 types before granted
    by blast
  have second:
    "requested_types (snd (startARSession (Some no_space_xr) scene_loaded))
       = referenceSpaceTypes
     \<and> hit_test_requests (snd (startARSession (Some no_space_xr) scene_loaded)) = []
     \<and> errorMessage (fst (startARSession (Some no_space_xr) scene_loaded))
       = ''Could not start AR session. Make sure your device supports WebXR.''"
    using startARSession_reference_space_order
        [of no_space_xr no_space_session "[]" LocalFloor "[]" 0 scene_loaded]
      session2 none
    by blast
  show ?thesis using first second by (simp add: referenceSpaceTypes_def)
qed

text \<open>
  Claim C2, as stated, at a concrete platform: every reference space but the viewer
  space is rejected, the viewer space is taken, and a hit-test source is requested for
  it.
\<close>

theorem startARSession_viewer_requests_hit_test:
  "requestReferenceSpace viewer_only_session LocalFloor = Rejected
   \<and> requestReferenceSpace viewer_only_session BoundedFloor = Rejected
   \<and> requestReferenceSpace viewer_only_session Local = Rejected
   \<and> requestReferenceSpace viewer_only_session Viewer = Resolved 4
   \<and> referenceSpaceRef (fst (startARSession (Some viewer_only_xr) scene_loaded)) = Some 4
   \<and> RequestHitTestSource 4 \<in> set (snd (startARSession (Some viewer_only_xr) scene_loaded))"
  by (simp add: startARSession_def viewer_only_xr_def viewer_only_session_def
      referenceSpaceTypes_def scene_loaded_def mount_def onLoad_def new_Group_def Vector3_set_def Vector3_sub_def
      identity_quaternion_def identity_matrix_def)

text \<open>
  Claim C2, amended. When the session is granted and every reference-space request but
  the one for the viewer space is rejected, the session still starts with the viewer
  space: the session is handed to the renderer (when there is one), all four reference
  spaces are asked for in order, the viewer space is stored, and the message that the
  session could not be started is not set. A hit-test source is then requested for the
  viewer space whenever the session has \<open>requestHitTestSource\<close>; the error message changes
  only when that request is rejected, to the warning about hit testing.
\<close>

theorem startARSession_viewer_only:
  assumes "requestSession xr = Resolved session"
      and "\<forall>t. t \<noteq> Viewer \<longrightarrow> requestReferenceSpace session t = Rejected"
      and "requestReferenceSpace session Viewer = Resolved space"
  shows "referenceSpaceRef (fst (startARSession (Some xr) s)) = Some space
       \<and> requested_types (snd (startARSession (Some xr) s))
           = [LocalFloor, BoundedFloor, Local, Viewer]
       \<and> hit_test_requests (snd (startARSession (Some xr) s))
           = (if requestHitTestSource session = None then [] else [space])
       \<and> snd (startARSession (Some xr) s)
           = RequestSession # (if rendererRef s then [SetSession] else [])
             @ map RequestReferenceSpace [LocalFloor, BoundedFloor, Local, Viewer]
             @ (if requestHitTestSource session = None then []
                else [RequestHitTestSource space])
       \<and> (rendererRef s \<longrightarrow> SetSession \<in> set (snd (startARSession (Some xr) s)))
       \<and> errorMessage (fst (startARSession (Some xr) s))
           = (case requestHitTestSource session of
                None \<Rightarrow> errorMessage s
              | Some request \<Rightarrow>
                  (case request space of
                     Rejected \<Rightarrow> msg_hit_test_failed
                   | Resolved source \<Rightarrow> errorMessage s))
       \<and> errorMessage (fst (startARSession (Some xr) s)) \<in> {errorMessage s, msg_hit_test_failed}
       \<and> hitTestSourceRef (fst (startARSession (Some xr) s))
           = (case requestHitTestSource session of
                None \<Rightarrow> hitTestSourceRef s
              | Some request \<Rightarrow>
                  (case request space of
                     Resolved (Some source) \<Rightarrow> Some source
                   | _ \<Rightarrow> hitTestSourceRef s))"
proof -
  have tried:
    "tryReferenceSpaces session referenceSpaceTypes
       = (Some space, map RequestReferenceSpace ([LocalFloor, BoundedFloor, Local] @ [Viewer]))"
    unfolding referenceSpaceTypes_def
    using tryReferenceSpaces_granted
        [of "[LocalFloor, BoundedFloor, Local]" session Viewer space "[]"]
      assms(2,3)
    by simp
  show ?thesis
    using assms(1) tried
    by (simp add: startARSession_def Let_def hit_test_requests_append
        split: option.splits promise.splits)
qed

theorem startARSession_viewer_only_witness:
  "referenceSpaceRef (fst (startARSession (Some viewer_only_xr) mount)) = Some 4
   \<and> requested_types (snd (startARSession (Some viewer_only_xr) mount))
       = [LocalFloor, BoundedFloor, Local, Viewer]
   \<and> hit_test_requests (snd (startARSession (Some viewer_only_xr) mount)) = [4]
   \<and> snd (startARSession (Some viewer_only_xr) mount)
       = [RequestSession, SetSession, RequestReferenceSpace LocalFloor,
          RequestReferenceSpace BoundedFloor, RequestReferenceSpace Local,
          RequestReferenceSpace Viewer, RequestHitTestSource 4]
   \<and> errorMessage (fst (startARSession (Some viewer_only_xr) mount)) = []
   \<and> hitTestSourceRef (fst (startARSession (Some viewer_only_xr) mount)) = Some 7"
  using startARSession_viewer_only [of viewer_only_xr viewer_only_session 4 mount]
  by (simp add: viewer_only_xr_def viewer_only_session_def mount_def)

section \<open>The certificate script\<close>

lemma written_append: "written (ops @ ops') = written ops @ written ops'"
  by (induction ops rule: written.induct) simp_all

text \<open>
  Claim C9. The script does not depend on the command line. It writes nothing but the
  key, the request and the certificate, all in \<open>../certs\<close>. When the three commands
  succeed it has written the three files in this order, has then removed the request,
  and ends with status 0. When one of the commands fails it ends with status 1.
\<close>

theorem generate_cert_behaviour:
  "generate_cert (h\<lparr>argv := args\<rparr>) = generate_cert h
   \<and> key_pem = ''../certs/key.pem'' \<and> csr_pem = ''../certs/csr.pem''
   \<and> cert_pem = ''../certs/cert.pem''
   \<and> set (written (snd (disk_after (generate_cert h)))) \<subseteq> {key_pem, csr_pem, cert_pem}
   \<and> (openssl_ok h (GenRsa key_pem) \<and> openssl_ok h (Req key_pem csr_pem)
        \<and> openssl_ok h (X509 csr_pem key_pem cert_pem)
        \<and> (certsDir \<in> files h \<or> mkdir_ok h)
      \<longrightarrow> exit_status (generate_cert h) = 0
          \<and> written (snd (disk_after (generate_cert h))) = [key_pem, csr_pem, cert_pem]
          \<and> last (snd (disk_after (generate_cert h))) = Unlink csr_pem
          \<and> key_pem \<in> fst (disk_after (generate_cert h))
          \<and> cert_pem \<in> fst (disk_after (generate_cert h))
          \<and> csr_pem \<notin> fst (disk_after (generate_cert h)))
   \<and> (\<not> (openssl_ok h (GenRsa key_pem) \<and> openssl_ok h (Req key_pem csr_pem)
           \<and> openssl_ok h (X509 csr_pem key_pem cert_pem))
      \<longrightarrow> exit_status (generate_cert h) = 1)"
  by (simp add: generate_cert_def try_block_def execSync_def unlinkSync_def mkdirSync_def
      key_pem_def csr_pem_def cert_pem_def path_join_def certsDir_def written_append Let_def)

theorem generate_cert_behaviour_witness:
  "generate_cert (host_ok\<lparr>argv := [''--force'']\<rparr>) = generate_cert host_ok
   \<and> exit_status (generate_cert host_ok) = 0
   \<and> written (snd (disk_after (generate_cert host_ok)))
       = [''../certs/key.pem'', ''../certs/csr.pem'', ''../certs/cert.pem'']
   \<and> last (snd (disk_after (generate_cert host_ok))) = Unlink ''../certs/csr.pem''
   \<and> ''../certs/csr.pem'' \<notin> fst (disk_after (generate_cert host_ok))
   \<and> \<not> openssl_ok host_req_fails (Req key_pem csr_pem)
   \<and> exit_status (generate_cert host_req_fails) = 1"
proof -
  have works: "openssl_ok host_ok (GenRsa key_pem) \<and> openssl_ok host_ok (Req key_pem csr_pem)
        \<and> openssl_ok host_ok (X509 csr_pem key_pem cert_pem)
        \<and> (certsDir \<in> files host_ok \<or> mkdir_ok host_ok)"
    by (simp add: host_ok_def)
  have fails: "\<not> openssl_ok host_req_fails (Req key_pem csr_pem)"
    by (simp add: host_req_fails_def)
  have good: "generate_cert (host_ok\<lparr>argv := [''--force'']\<rparr>) = generate_cert host_ok
     \<and> exit_status (generate_cert host_ok) = 0
     \<and> written (snd (disk_after (generate_cert host_ok))) = [key_pem, csr_pem, cert_pem]
     \<and> last (snd (disk_after (generate_cert host_ok))) = Unlink csr_pem
     \<and> csr_pem \<notin> fst (disk_after (generate_cert host_ok))"
    using generate_cert_behaviour [where h = host_ok and args = "[''--force'']"] works by blast
  have names: "key_pem = ''../certs/key.pem'' \<and> csr_pem = ''../certs/csr.pem''
     \<and> cert_pem = ''../certs/cert.pem''"
    using generate_cert_behaviour [where h = host_ok and args = "[]"] by blast
  have bad: "exit_status (generate_cert host_req_fails) = 1"
    using generate_cert_behaviour [where h = host_req_fails and args = "[]"] fails by blast
  show ?thesis using good names fails bad by simp
qed

end
